theory Spec2Isabelle
  imports Complex_Main "HOL-Library.Finite_Map" "HOL-Library.Char_ord" "HOL-Library.List_Lexorder"
begin

section \<open>The self-check cache of \<open>ins/_internal/utils/outdated.py\<close>\<close>

text \<open>
  The module keeps one JSON document, \<open>selfcheck.json\<close>, in the cache directory. The
  document maps an environment key (\<open>sys.prefix\<close>) to an entry
  \<open>{"last_check": ..., "pypi_version": ...}\<close>. \<open>SelfCheckState.__init__\<close> reads the
  entry of the running environment, \<open>SelfCheckState.save\<close> rewrites the document under
  a file lock, and \<open>ins_version_check\<close> decides whether to ask the package index and
  whether to warn.

  The embedding follows the source line by line. Everything the module imports
  (\<open>json.load\<close>, \<open>lockfile\<close>, \<open>check_path_owner\<close>, \<open>ensure_dir\<close>,
  \<open>get_installed_version\<close>, \<open>packaging.version\<close>, \<open>PackageFinder\<close>,
  \<open>pkg_resources\<close>, \<open>datetime\<close>) lives outside the module and is a field of the
  record \<open>env\<close>: a theorem quantified over \<open>env\<close> holds for every behaviour of these
  collaborators. A collaborator is taken to return or to raise; a call that never
  returns (a lock that is never released, a hanging connection) is outside the model.
\<close>

subsection \<open>Exceptions\<close>

text \<open>
  The exception classes the module names or meets. \<open>KeyboardInterrupt\<close> and
  \<open>SystemExit\<close> derive from \<open>BaseException\<close> only, so \<open>except Exception\<close> does not
  catch them.
\<close>

datatype exn =
    IOError | ValueError | KeyError | TypeError | OSError
  | LockError | DistributionNotFound | OtherException string
  | KeyboardInterrupt | SystemExit

fun is_Exception :: "exn \<Rightarrow> bool" where
  "is_Exception KeyboardInterrupt = False"
| "is_Exception SystemExit = False"
| "is_Exception e = True"

subsection \<open>JSON values as Python sees them\<close>

text \<open>
  What \<open>json.load\<close> returns: \<open>None\<close>, a bool, an int, a float (kept as its
  \<open>repr\<close> text, which is what \<open>json.dump\<close> prints for it), a string, a list or a
  dict. A Python dict has one value per key and compares without regard to order, so it
  is a finite map.
\<close>

datatype json =
    JNull | JBool bool | JNum int | JFloat string | JStr string
  | JArr "json list" | JObj "(string, json) fmap"

text \<open>\<open>key in obj\<close> for a string key: dict membership, list membership, substring of a
  string; the other values are not iterable.\<close>

fun is_substring :: "string \<Rightarrow> string \<Rightarrow> bool" where
  "is_substring k [] = (k = [])"
| "is_substring k (c # cs) = (take (length k) (c # cs) = k \<or> is_substring k cs)"

fun py_contains :: "string \<Rightarrow> json \<Rightarrow> exn + bool" where
  "py_contains k (JObj m) = Inr (k |\<in>| fmdom m)"
| "py_contains k (JArr xs) = Inr (JStr k \<in> set xs)"
| "py_contains k (JStr s) = Inr (is_substring k s)"
| "py_contains k j = Inl TypeError"

text \<open>\<open>obj[key]\<close> for a string key: only a dict can be subscripted by a string.\<close>

fun py_getitem :: "json \<Rightarrow> string \<Rightarrow> exn + json" where
  "py_getitem (JObj m) k = (case fmlookup m k of None \<Rightarrow> Inl KeyError | Some v \<Rightarrow> Inr v)"
| "py_getitem j k = Inl TypeError"

text \<open>\<open>obj[key] = v\<close> for a string key.\<close>

fun py_setitem :: "json \<Rightarrow> string \<Rightarrow> json \<Rightarrow> exn + json" where
  "py_setitem (JObj m) k v = Inr (JObj (fmupd k v m))"
| "py_setitem j k v = Inl TypeError"

subsection \<open>\<open>json.dump(state, statefile, sort_keys=True, separators=(",", ":"))\<close>\<close>

definition hex_digit :: "nat \<Rightarrow> char" where
  "hex_digit n = ''0123456789abcdef'' ! (n mod 16)"

text \<open>The writer's default \<open>ensure_ascii=True\<close>: a quote and a backslash are escaped,
  the named control characters get their short form, and every other character outside
  \<open>' '..'~'\<close> is written \<open>\uXXXX\<close>.\<close>

definition escape_char :: "char \<Rightarrow> string" where
  "escape_char c =
     (if c = CHR 0x22 then [CHR 0x5C, CHR 0x22]
      else if c = CHR 0x5C then [CHR 0x5C, CHR 0x5C]
      else if c = CHR 0x0A then [CHR 0x5C, CHR ''n'']
      else if c = CHR 0x0D then [CHR 0x5C, CHR ''r'']
      else if c = CHR 0x09 then [CHR 0x5C, CHR ''t'']
      else if c = CHR 0x08 then [CHR 0x5C, CHR ''b'']
      else if c = CHR 0x0C then [CHR 0x5C, CHR ''f'']
      else if (of_char c :: nat) < 32 \<or> 126 < (of_char c :: nat)
        then [CHR 0x5C, CHR ''u'', CHR ''0'', CHR ''0'',
              hex_digit (of_char c div 16), hex_digit (of_char c)]
      else [c])"

definition encode_string :: "string \<Rightarrow> string" where
  "encode_string s = [CHR 0x22] @ concat (map escape_char s) @ [CHR 0x22]"

fun decimal :: "nat \<Rightarrow> string" where
  "decimal n = (if n < 10 then [hex_digit n] else decimal (n div 10) @ [hex_digit (n mod 10)])"

definition encode_int :: "int \<Rightarrow> string" where
  "encode_int i = (if i < 0 then ''-'' @ decimal (nat (- i)) else decimal (nat i))"

definition join_with :: "string \<Rightarrow> string list \<Rightarrow> string" where
  "join_with sep xs = (case xs of [] \<Rightarrow> [] | y # ys \<Rightarrow> y @ concat (map (\<lambda>z. sep @ z) ys))"

text \<open>A dict whose values are already rendered: the items in the order of their keys
  (\<open>sort_keys=True\<close>), \<open>key:value\<close> joined by commas with no space.\<close>

definition dump_items :: "(string, string) fmap \<Rightarrow> string" where
  "dump_items m =
     ''{'' @ join_with '',''
       (map (\<lambda>k. encode_string k @ '':'' @ the (fmlookup m k)) (sorted_list_of_fset (fmdom m)))
     @ ''}''"

primrec json_dumps :: "json \<Rightarrow> string" where
  "json_dumps JNull = ''null''"
| "json_dumps (JBool b) = (if b then ''true'' else ''false'')"
| "json_dumps (JNum i) = encode_int i"
| "json_dumps (JFloat r) = r"
| "json_dumps (JStr s) = encode_string s"
| "json_dumps (JArr xs) = ''['' @ join_with '','' (map json_dumps xs) @ '']''"
| "json_dumps (JObj m) = dump_items (fmmap json_dumps m)"

subsection \<open>The world the module acts on\<close>

datatype log_record = WARNING string | DEBUG string

text \<open>\<open>files\<close> is the content of every regular file, by path; \<open>logged\<close> the records the
  module's logger has received; \<open>index_queries\<close> counts the calls of the package
  finder.\<close>

record world =
  files :: "string \<rightharpoonup> string"
  logged :: "log_record list"
  index_queries :: nat

text \<open>An installed distribution as \<open>pkg_resources\<close> hands it out.\<close>

record distribution =
  has_metadata :: "string \<Rightarrow> bool"
  get_metadata_lines :: "string \<Rightarrow> exn + string list"

text \<open>The options the check reads.\<close>

record options =
  cache_dir :: "string option"
  find_links :: "string list"
  index_url :: string
  extra_index_urls :: "string list"
  trusted_hosts :: "string list"

text \<open>
  The collaborators. \<open>'v\<close> is the type of parsed versions and \<open>'s\<close> the type of the
  session. A naive \<open>datetime\<close> is the number of microseconds since a fixed origin.
  \<open>json_load\<close> returns \<open>None\<close> where \<open>json.load\<close> raises \<open>ValueError\<close>;
  \<open>strptime\<close> returns \<open>None\<close> where \<open>datetime.strptime\<close> raises \<open>ValueError\<close>;
  \<open>ensure_dir\<close> and \<open>lock_acquire\<close> return the exception they raise, if any.
\<close>

record ('v, 's) env =
  sys_prefix :: string
  WINDOWS :: bool
  os_path_join :: "string \<Rightarrow> string \<Rightarrow> string"
  os_path_dirname :: "string \<Rightarrow> string"
  may_read :: "string \<Rightarrow> bool"
  may_write :: "string \<Rightarrow> bool"
  json_load :: "string \<Rightarrow> json option"
  check_path_owner :: "string \<Rightarrow> bool"
  ensure_dir :: "string \<Rightarrow> exn option"
  lock_acquire :: "string \<Rightarrow> exn option"
  utcnow :: int
  strptime :: "string \<Rightarrow> string \<Rightarrow> int option"
  strftime :: "int \<Rightarrow> string \<Rightarrow> string"
  get_installed_version :: "string \<Rightarrow> exn + string option"
  version_parse :: "string \<Rightarrow> exn + 'v"
  version_less :: "'v \<Rightarrow> 'v \<Rightarrow> bool"
  base_version :: "'v \<Rightarrow> string"
  version_str :: "'v \<Rightarrow> string"
  find_best_candidate ::
    "string list \<Rightarrow> string list \<Rightarrow> bool \<Rightarrow> string list \<Rightarrow> 's \<Rightarrow> string \<Rightarrow> exn + 'v option"
  get_distribution :: "string \<Rightarrow> exn + distribution"

definition SELFCHECK_DATE_FMT :: string where
  "SELFCHECK_DATE_FMT = ''%Y-%m-%dT%H:%M:%SZ''"

subsection \<open>\<open>SelfCheckState\<close>\<close>

record SelfCheckState =
  state :: json
  statefile_path :: "string option"

text \<open>\<open>open(path)\<close> followed by reading the file: \<open>IOError\<close> when the file is absent or
  may not be read.\<close>

definition read_file :: "('v, 's) env \<Rightarrow> world \<Rightarrow> string \<Rightarrow> exn + string" where
  "read_file env w p =
     (case files w p of
        None \<Rightarrow> Inl IOError
      | Some txt \<Rightarrow> if may_read env p then Inr txt else Inl IOError)"

text \<open>\<open>json.load(statefile)\<close> on an opened file.\<close>

definition load_document :: "('v, 's) env \<Rightarrow> world \<Rightarrow> string \<Rightarrow> exn + json" where
  "load_document env w p =
     (case read_file env w p of
        Inl e \<Rightarrow> Inl e
      | Inr txt \<Rightarrow> (case json_load env txt of None \<Rightarrow> Inl ValueError | Some doc \<Rightarrow> Inr doc))"

text \<open>
  \<open>__init__\<close> (lines 31 to 45). The \<open>try\<close> covers the open, the parse and the
  subscript; the handler names \<open>IOError\<close>, \<open>ValueError\<close> and \<open>KeyError\<close> and leaves
  \<open>self.state\<close> empty. Any other exception leaves the constructor.
\<close>

definition SelfCheckState_init ::
  "('v, 's) env \<Rightarrow> string option \<Rightarrow> world \<Rightarrow> exn + SelfCheckState" where
  "SelfCheckState_init env cdir w =
     (case cdir of
        None \<Rightarrow> Inr \<lparr>state = JObj fmempty, statefile_path = None\<rparr>
      | Some d \<Rightarrow>
          if d = [] then Inr \<lparr>state = JObj fmempty, statefile_path = None\<rparr>
          else
            let p = os_path_join env d ''selfcheck.json'' in
            (case (case load_document env w p of
                     Inl e \<Rightarrow> Inl e
                   | Inr doc \<Rightarrow> py_getitem doc (sys_prefix env)) of
               Inl e \<Rightarrow>
                 if e = IOError \<or> e = ValueError \<or> e = KeyError
                 then Inr \<lparr>state = JObj fmempty, statefile_path = Some p\<rparr>
                 else Inl e
             | Inr entry \<Rightarrow> Inr \<lparr>state = entry, statefile_path = Some p\<rparr>))"

text \<open>The entry \<open>save\<close> stores under the environment key (lines 69 to 72).\<close>

definition new_entry :: "('v, 's) env \<Rightarrow> string \<Rightarrow> int \<Rightarrow> json" where
  "new_entry env pypi_version current_time =
     JObj (fmupd ''last_check'' (JStr (strftime env current_time SELFCHECK_DATE_FMT))
          (fmupd ''pypi_version'' (JStr pypi_version) fmempty))"

text \<open>
  The first half of the body of \<open>with lockfile.LockFile(...)\<close> (lines 63 to 72): read
  the document again if the file exists, else start from an empty dict, and set the entry
  of this environment. No statement of the block catches anything.
\<close>

definition updated_document ::
  "('v, 's) env \<Rightarrow> string \<Rightarrow> string \<Rightarrow> int \<Rightarrow> world \<Rightarrow> exn + json" where
  "updated_document env p pypi_version current_time w =
     (case (if p \<in> dom (files w) then load_document env w p else Inr (JObj fmempty)) of
        Inl e \<Rightarrow> Inl e
      | Inr doc \<Rightarrow> py_setitem doc (sys_prefix env) (new_entry env pypi_version current_time))"

text \<open>
  The whole body (lines 63 to 76): the updated document is written over the file. A
  failure leaves the block (the context manager releases the lock) with the file as it
  was.
\<close>

definition locked_rewrite ::
  "('v, 's) env \<Rightarrow> string \<Rightarrow> string \<Rightarrow> int \<Rightarrow> world \<Rightarrow> (exn + unit) \<times> world" where
  "locked_rewrite env p pypi_version current_time w =
     (case updated_document env p pypi_version current_time w of
        Inl e \<Rightarrow> (Inl e, w)
      | Inr doc' \<Rightarrow>
          if may_write env p
          then (Inr (), w\<lparr>files := (files w)(p \<mapsto> json_dumps doc')\<rparr>)
          else (Inl IOError, w))"

text \<open>\<open>save\<close> (lines 47 to 76).\<close>

definition save ::
  "('v, 's) env \<Rightarrow> SelfCheckState \<Rightarrow> string \<Rightarrow> int \<Rightarrow> world \<Rightarrow> (exn + unit) \<times> world" where
  "save env self pypi_version current_time w =
     (case statefile_path self of
        None \<Rightarrow> (Inr (), w)
      | Some p \<Rightarrow>
          if p = [] then (Inr (), w)
          else if \<not> check_path_owner env (os_path_dirname env p) then (Inr (), w)
          else
            (case ensure_dir env (os_path_dirname env p) of
               Some e \<Rightarrow> (Inl e, w)
             | None \<Rightarrow>
                 (case lock_acquire env p of
                    Some e \<Rightarrow> (Inl e, w)
                  | None \<Rightarrow> locked_rewrite env p pypi_version current_time w)))"

subsection \<open>\<open>was_installed_by_ins\<close>\<close>

text \<open>Lines 79 to 91. The handler catches \<open>DistributionNotFound\<close> from anywhere in the
  \<open>try\<close>; \<open>and\<close> does not read the metadata lines when there is no \<open>INSTALLER\<close> file.\<close>

definition was_installed_by_ins :: "('v, 's) env \<Rightarrow> string \<Rightarrow> exn + bool" where
  "was_installed_by_ins env pkg =
     (case (case get_distribution env pkg of
              Inl e \<Rightarrow> Inl e
            | Inr d \<Rightarrow>
                if has_metadata d ''INSTALLER''
                then (case get_metadata_lines d ''INSTALLER'' of
                        Inl e \<Rightarrow> Inl e
                      | Inr ls \<Rightarrow> Inr (''ins'' \<in> set ls))
                else Inr False) of
        Inl e \<Rightarrow> if e = DistributionNotFound then Inr False else Inl e
      | Inr b \<Rightarrow> Inr b)"

subsection \<open>\<open>ins_version_check\<close>\<close>

text \<open>\<open>timedelta.total_seconds()\<close>: the microseconds divided by \<open>10**6\<close>.\<close>

definition total_seconds :: "int \<Rightarrow> real" where
  "total_seconds d = real_of_int d / 1000000"

text \<open>\<open>datetime.datetime.strptime(x, fmt)\<close> on a value read from the cache: a value that
  is not a string is a \<open>TypeError\<close>.\<close>

definition datetime_strptime :: "('v, 's) env \<Rightarrow> json \<Rightarrow> string \<Rightarrow> exn + int" where
  "datetime_strptime env x fmt =
     (case x of
        JStr s \<Rightarrow> (case strptime env s fmt of None \<Rightarrow> Inl ValueError | Some t \<Rightarrow> Inr t)
      | _ \<Rightarrow> Inl TypeError)"

text \<open>
  Lines 114 to 120: the value of \<open>pypi_version\<close> after the freshness test (\<open>JNull\<close> is
  Python's \<open>None\<close>, the value the variable has from line 107).
\<close>

definition cached_pypi_version ::
  "('v, 's) env \<Rightarrow> SelfCheckState \<Rightarrow> int \<Rightarrow> exn + json" where
  "cached_pypi_version env st current_time =
     (case py_contains ''last_check'' (state st) of
        Inl e \<Rightarrow> Inl e
      | Inr False \<Rightarrow> Inr JNull
      | Inr True \<Rightarrow>
          (case py_contains ''pypi_version'' (state st) of
             Inl e \<Rightarrow> Inl e
           | Inr False \<Rightarrow> Inr JNull
           | Inr True \<Rightarrow>
               (case py_getitem (state st) ''last_check'' of
                  Inl e \<Rightarrow> Inl e
                | Inr lc \<Rightarrow>
                    (case datetime_strptime env lc SELFCHECK_DATE_FMT of
                       Inl e \<Rightarrow> Inl e
                     | Inr last_check \<Rightarrow>
                         if total_seconds (current_time - last_check) < 7 * 24 * 60 * 60
                         then py_getitem (state st) ''pypi_version''
                         else Inr JNull))))"

text \<open>
  Lines 123 to 138: when \<open>pypi_version\<close> is still \<open>None\<close>, ask the finder; without a
  candidate the function returns (the result \<open>None\<close> here), otherwise the candidate's
  version is saved. The result is the value of \<open>pypi_version\<close> at line 140.
\<close>

definition refresh ::
  "('v, 's) env \<Rightarrow> 's \<Rightarrow> options \<Rightarrow> SelfCheckState \<Rightarrow> int \<Rightarrow> json \<Rightarrow> world
     \<Rightarrow> (exn + json option) \<times> world" where
  "refresh env session opts st current_time pypi_version w =
     (if pypi_version = JNull then
        let w1 = w\<lparr>index_queries := Suc (index_queries w)\<rparr> in
        (case find_best_candidate env (find_links opts) (index_url opts # extra_index_urls opts)
                False (trusted_hosts opts) session ''ins'' of
           Inl e \<Rightarrow> (Inl e, w1)
         | Inr None \<Rightarrow> (Inr None, w1)
         | Inr (Some candidate_version) \<Rightarrow>
             (case save env st (version_str env candidate_version) current_time w1 of
                (Inl e, w2) \<Rightarrow> (Inl e, w2)
              | (Inr u, w2) \<Rightarrow> (Inr (Some (JStr (version_str env candidate_version))), w2)))
      else (Inr (Some pypi_version), w))"

text \<open>Lines 110 to 138 together: load the state, read the clock, decide, refresh.\<close>

definition resolve_pypi_version ::
  "('v, 's) env \<Rightarrow> 's \<Rightarrow> options \<Rightarrow> world \<Rightarrow> (exn + json option) \<times> world" where
  "resolve_pypi_version env session opts w =
     (case SelfCheckState_init env (cache_dir opts) w of
        Inl e \<Rightarrow> (Inl e, w)
      | Inr st \<Rightarrow>
          (case cached_pypi_version env st (utcnow env) of
             Inl e \<Rightarrow> (Inl e, w)
           | Inr pypi_version \<Rightarrow> refresh env session opts st (utcnow env) pypi_version w))"

definition upgrade_message :: "string \<Rightarrow> string \<Rightarrow> string \<Rightarrow> string" where
  "upgrade_message ins_version pypi_version ins_cmd =
     ''You are using ins version '' @ ins_version @ '', however version '' @ pypi_version
     @ '' is available.'' @ [CHR 0x0A] @ ''You should consider upgrading via the ''
     @ [CHR 0x27] @ ins_cmd @ '' install --upgrade ins'' @ [CHR 0x27] @ '' command.''"

text \<open>
  Lines 140 to 157. \<open>packaging_version.parse\<close> takes a string: any other value read
  from the cache is a \<open>TypeError\<close>. The provenance check is the last operand of \<open>and\<close>,
  so it runs only when the first two hold.
\<close>

definition compare_and_warn ::
  "('v, 's) env \<Rightarrow> 'v \<Rightarrow> json \<Rightarrow> world \<Rightarrow> (exn + unit) \<times> world" where
  "compare_and_warn env ins_version pypi_version w =
     (case pypi_version of
        JStr pv \<Rightarrow>
          (case version_parse env pv of
             Inl e \<Rightarrow> (Inl e, w)
           | Inr remote_version \<Rightarrow>
               if version_less env ins_version remote_version
                  \<and> base_version env ins_version \<noteq> base_version env remote_version
               then (case was_installed_by_ins env ''ins'' of
                       Inl e \<Rightarrow> (Inl e, w)
                     | Inr False \<Rightarrow> (Inr (), w)
                     | Inr True \<Rightarrow>
                         (Inr (), w\<lparr>logged := logged w @
                            [WARNING (upgrade_message (version_str env ins_version) pv
                               (if WINDOWS env then ''python -m ins'' else ''ins''))]\<rparr>))
               else (Inr (), w))
      | _ \<Rightarrow> (Inl TypeError, w))"

text \<open>The \<open>try\<close> block, lines 110 to 157.\<close>

definition try_block ::
  "('v, 's) env \<Rightarrow> 's \<Rightarrow> options \<Rightarrow> 'v \<Rightarrow> world \<Rightarrow> (exn + unit) \<times> world" where
  "try_block env session opts ins_version w =
     (case resolve_pypi_version env session opts w of
        (Inl e, w1) \<Rightarrow> (Inl e, w1)
      | (Inr None, w1) \<Rightarrow> (Inr (), w1)
      | (Inr (Some pypi_version), w1) \<Rightarrow> compare_and_warn env ins_version pypi_version w1)"

definition error_message :: string where
  "error_message = ''There was an error checking the latest version of ins''"

text \<open>
  The function (lines 94 to 162). The installed version is read and parsed before the
  \<open>try\<close> (lines 102 to 106); \<open>if not installed_version\<close> holds for \<open>None\<close> and for the
  empty string. The handler is \<open>except Exception\<close>.
\<close>

definition ins_version_check ::
  "('v, 's) env \<Rightarrow> 's \<Rightarrow> options \<Rightarrow> world \<Rightarrow> (exn + unit) \<times> world" where
  "ins_version_check env session opts w =
     (case get_installed_version env ''ins'' of
        Inl e \<Rightarrow> (Inl e, w)
      | Inr None \<Rightarrow> (Inr (), w)
      | Inr (Some installed_version) \<Rightarrow>
          if installed_version = [] then (Inr (), w)
          else
            (case version_parse env installed_version of
               Inl e \<Rightarrow> (Inl e, w)
             | Inr ins_version \<Rightarrow>
                 (case try_block env session opts ins_version w of
                    (Inl e, w1) \<Rightarrow>
                      if is_Exception e
                      then (Inr (), w1\<lparr>logged := logged w1 @ [DEBUG error_message]\<rparr>)
                      else (Inl e, w1)
                  | (Inr u, w1) \<Rightarrow> (Inr (), w1))))"

section \<open>A concrete environment\<close>

text \<open>
  One environment to run the definitions in: the prefix \<open>/usr\<close>, the cache directory
  \<open>/cache\<close>, the clock at 2019-01-08T00:00:00Z (microseconds since 1970), ins 1.2.0
  installed by ins, and 1.2.1 on the index. Versions are a text, a sort key and a base
  version; a text the table does not know parses as a legacy version, below every other.
\<close>

type_synonym demo_version = "string \<times> nat list \<times> string"

definition demo_version_parse :: "string \<Rightarrow> exn + demo_version" where
  "demo_version_parse s =
     (case map_of
        [(''1.2.0'', ([1, 2, 0, 0], ''1.2.0'')),
         (''1.2.1'', ([1, 2, 1, 0], ''1.2.1'')),
         (''1.2.0.post1'', ([1, 2, 0, 1], ''1.2.0'')),
         (''1.9.0'', ([1, 9, 0, 0], ''1.9.0'')),
         (''2.0.0'', ([2, 0, 0, 0], ''2.0.0''))] s of
        Some (k, b) \<Rightarrow> Inr (s, k, b)
      | None \<Rightarrow> Inr (s, [], s))"

definition demo_now :: int where
  "demo_now = 1546905600000000"

definition demo_strptime :: "string \<Rightarrow> string \<Rightarrow> int option" where
  "demo_strptime s fmt =
     (if fmt = SELFCHECK_DATE_FMT
      then map_of
        [(''2019-01-01T00:00:00Z'', 1546300800000000),
         (''2019-01-07T12:00:00Z'', 1546862400000000),
         (''2019-01-08T00:00:00Z'', 1546905600000000),
         (''2019-02-01T00:00:00Z'', 1548979200000000)] s
      else None)"

definition demo_strftime :: "int \<Rightarrow> string \<Rightarrow> string" where
  "demo_strftime t fmt =
     (if t = 1546905600000000 \<and> fmt = SELFCHECK_DATE_FMT then ''2019-01-08T00:00:00Z'' else [])"

definition demo_path :: string where
  "demo_path = ''/cache/selfcheck.json''"

definition demo_fields :: "string \<Rightarrow> string \<Rightarrow> (string, json) fmap" where
  "demo_fields last_check pypi_version =
     fmupd ''last_check'' (JStr last_check) (fmupd ''pypi_version'' (JStr pypi_version) fmempty)"

definition demo_entry :: "string \<Rightarrow> string \<Rightarrow> json" where
  "demo_entry last_check pypi_version = JObj (demo_fields last_check pypi_version)"

text \<open>The document of another environment alone, and with the entry of \<open>/usr\<close> added.\<close>

definition demo_other :: "(string, json) fmap" where
  "demo_other = fmupd ''/opt/venv'' (demo_entry ''2019-01-01T00:00:00Z'' ''1.2.0'') fmempty"

definition demo_merged :: "(string, json) fmap" where
  "demo_merged = fmupd ''/usr'' (demo_entry ''2019-01-08T00:00:00Z'' ''1.2.1'') demo_other"

text \<open>What \<open>json.load\<close> makes of the file contents used below; every other content here
  is not JSON.\<close>

definition demo_json_load :: "string \<Rightarrow> json option" where
  "demo_json_load txt = map_of
     [(''[]'', JArr []),
      (''{}'', JObj fmempty),
      (''{\"/opt/venv\":{\"last_check\":\"2019-01-01T00:00:00Z\",\"pypi_version\":\"1.2.0\"}}'',
         JObj demo_other),
      (''{\"/opt/venv\":{\"last_check\":\"2019-01-01T00:00:00Z\",\"pypi_version\":\"1.2.0\"},\"/usr\":{\"last_check\":\"2019-01-08T00:00:00Z\",\"pypi_version\":\"1.2.1\"}}'',
         JObj demo_merged),
      (''{\"/usr\":{\"last_check\":\"2019-01-08T00:00:00Z\",\"pypi_version\":\"1.2.1\"}}'',
         JObj (fmupd ''/usr'' (demo_entry ''2019-01-08T00:00:00Z'' ''1.2.1'') fmempty)),
      (''{\"/usr\":{\"last_check\":\"2019-01-07T12:00:00Z\",\"pypi_version\":\"1.2.1\"}}'',
         JObj (fmupd ''/usr'' (demo_entry ''2019-01-07T12:00:00Z'' ''1.2.1'') fmempty)),
      (''{\"/usr\":{\"last_check\":\"2019-01-01T00:00:00Z\",\"pypi_version\":\"1.2.1\"}}'',
         JObj (fmupd ''/usr'' (demo_entry ''2019-01-01T00:00:00Z'' ''1.2.1'') fmempty)),
      (''{\"/usr\":{\"last_check\":\"2019-02-01T00:00:00Z\",\"pypi_version\":\"1.2.1\"}}'',
         JObj (fmupd ''/usr'' (demo_entry ''2019-02-01T00:00:00Z'' ''1.2.1'') fmempty)),
      (''{\"/usr\":{\"last_check\":\"last tuesday\",\"pypi_version\":\"1.2.1\"}}'',
         JObj (fmupd ''/usr'' (demo_entry ''last tuesday'' ''1.2.1'') fmempty))] txt"

definition demo_distribution :: distribution where
  "demo_distribution =
     \<lparr>has_metadata = (\<lambda>name. name = ''INSTALLER''),
      get_metadata_lines = (\<lambda>name. Inr [''ins''])\<rparr>"

definition demo_env :: "(demo_version, unit) env" where
  "demo_env =
     \<lparr>sys_prefix = ''/usr'',
      WINDOWS = False,
      os_path_join = (\<lambda>a b. a @ ''/'' @ b),
      os_path_dirname = (\<lambda>p. rev (tl (dropWhile (\<lambda>c. c \<noteq> CHR ''/'') (rev p)))),
      may_read = (\<lambda>p. True),
      may_write = (\<lambda>p. True),
      json_load = demo_json_load,
      check_path_owner = (\<lambda>d. d = ''/cache''),
      ensure_dir = (\<lambda>d. None),
      lock_acquire = (\<lambda>p. None),
      utcnow = demo_now,
      strptime = demo_strptime,
      strftime = demo_strftime,
      get_installed_version = (\<lambda>pkg. Inr (Some ''1.2.0'')),
      version_parse = demo_version_parse,
      version_less = (\<lambda>a b. fst (snd a) < fst (snd b)),
      base_version = (\<lambda>v. snd (snd v)),
      version_str = fst,
      find_best_candidate = (\<lambda>links urls pre hosts session pkg. Inr (Some (''1.2.1'', [1, 2, 1, 0], ''1.2.1''))),
      get_distribution = (\<lambda>pkg. Inr demo_distribution)\<rparr>"

definition demo_options :: options where
  "demo_options =
     \<lparr>cache_dir = Some ''/cache'', find_links = [], index_url = ''https://pypi.org/simple'',
      extra_index_urls = [], trusted_hosts = []\<rparr>"

text \<open>The world without a state file, and with a state file of the given content.\<close>

definition demo_world :: world where
  "demo_world = \<lparr>files = Map.empty, logged = [], index_queries = 0\<rparr>"

definition demo_world_with :: "string \<Rightarrow> world" where
  "demo_world_with txt = \<lparr>files = [demo_path \<mapsto> txt], logged = [], index_queries = 0\<rparr>"

text \<open>The world whose state file holds one entry, that of \<open>/usr\<close>.\<close>

definition demo_cached :: "string \<Rightarrow> string \<Rightarrow> world" where
  "demo_cached last_check pypi_version =
     demo_world_with (json_dumps (JObj (fmupd ''/usr'' (demo_entry last_check pypi_version) fmempty)))"

definition demo_state :: SelfCheckState where
  "demo_state = \<lparr>state = JObj fmempty, statefile_path = Some demo_path\<rparr>"

text \<open>
  An entry of \<open>/usr\<close> checked twelve hours before the clock, with any cached value \<open>v\<close>
  for \<open>pypi_version\<close>; the document that holds it alone; and the environment whose reader
  knows the text of that document and no other.
\<close>

definition demo_recent_fields :: "json \<Rightarrow> (string, json) fmap" where
  "demo_recent_fields v =
     fmupd ''last_check'' (JStr ''2019-01-07T12:00:00Z'') (fmupd ''pypi_version'' v fmempty)"

definition demo_recent_document :: "json \<Rightarrow> json" where
  "demo_recent_document v = JObj (fmupd ''/usr'' (JObj (demo_recent_fields v)) fmempty)"

definition demo_env_reading :: "json \<Rightarrow> (demo_version, unit) env" where
  "demo_env_reading doc =
     demo_env\<lparr>json_load := (\<lambda>txt. if txt = json_dumps doc then Some doc else None)\<rparr>"

section \<open>Properties\<close>

subsection \<open>Auxiliary facts about \<open>save\<close>\<close>

lemma load_document_Inr:
  "load_document env w p = Inr doc \<longleftrightarrow>
     (\<exists>txt. files w p = Some txt \<and> may_read env p \<and> json_load env txt = Some doc)"
  by (auto simp: load_document_def read_file_def split: option.splits if_splits)

lemma load_document_written:
  "load_document env (w\<lparr>files := (files w)(p \<mapsto> txt)\<rparr>) p =
     (if may_read env p
      then (case json_load env txt of None \<Rightarrow> Inl ValueError | Some doc \<Rightarrow> Inr doc)
      else Inl IOError)"
  by (simp add: load_document_def read_file_def)

lemma save_cases:
  assumes "statefile_path self = Some p"
    and "save env self pypi_version current_time w = (r, w')"
  shows "w' = w \<or>
     (p \<noteq> [] \<and> check_path_owner env (os_path_dirname env p) \<and> r = Inr () \<and> may_write env p \<and>
      (\<exists>doc'. updated_document env p pypi_version current_time w = Inr doc'
          \<and> w' = w\<lparr>files := (files w)(p \<mapsto> json_dumps doc')\<rparr>))"
  using assms
  by (auto simp: save_def locked_rewrite_def split: option.splits if_splits sum.splits)

lemma save_returns_cases:
  assumes "statefile_path self = Some p"
    and "save env self pypi_version current_time w = (Inr (), w')"
    and "p \<noteq> []" and "check_path_owner env (os_path_dirname env p)"
  shows "\<exists>doc'. updated_document env p pypi_version current_time w = Inr doc'
          \<and> w' = w\<lparr>files := (files w)(p \<mapsto> json_dumps doc')\<rparr>"
  using assms
  by (auto simp: save_def locked_rewrite_def split: option.splits if_splits sum.splits)

lemma updated_document_after_write:
  assumes "updated_document env p pypi_version current_time w = Inr doc'"
    and "may_read env p"
    and "json_load env (json_dumps doc') = Some doc'"
  shows "updated_document env p pypi_version current_time
           (w\<lparr>files := (files w)(p \<mapsto> json_dumps doc')\<rparr>) = Inr doc'"
proof -
  from assms(1) obtain doc where
    "py_setitem doc (sys_prefix env) (new_entry env pypi_version current_time) = Inr doc'"
    by (auto simp: updated_document_def split: sum.splits)
  then obtain m where doc': "doc' = JObj (fmupd (sys_prefix env) (new_entry env pypi_version current_time) m)"
    by (cases doc) auto
  have "py_setitem doc' (sys_prefix env) (new_entry env pypi_version current_time) = Inr doc'"
    unfolding doc' by simp
  then show ?thesis
    using assms(2,3) by (simp add: updated_document_def load_document_written)
qed

subsection \<open>The state store\<close>

text \<open>
  C1. A save into a state file that holds a document \<open>m\<close> (entries of any keys) leaves a
  file that reads as a document \<open>m'\<close> in which every key other than the current
  environment's has the entry it had in \<open>m\<close>; when \<open>save\<close> passes the ownership gate
  and returns normally, \<open>m'\<close> maps the current key to the new
  \<open>{last_check, pypi_version}\<close> entry. This holds for every outcome of \<open>save\<close> (also
  when it raises), and for every reader that reads back the document \<open>save\<close> writes.
\<close>

theorem save_keeps_other_entries:
  assumes path: "statefile_path self = Some p"
    and doc: "load_document env w p = Inr (JObj m)"
    and reads_back:
      "json_load env (json_dumps (JObj (fmupd (sys_prefix env) (new_entry env pypi_version current_time) m)))
         = Some (JObj (fmupd (sys_prefix env) (new_entry env pypi_version current_time) m))"
    and sv: "save env self pypi_version current_time w = (r, w')"
  shows "\<exists>m'. load_document env w' p = Inr (JObj m')
           \<and> (\<forall>k. k \<noteq> sys_prefix env \<longrightarrow> fmlookup m' k = fmlookup m k)
           \<and> (r = Inr () \<and> p \<noteq> [] \<and> check_path_owner env (os_path_dirname env p)
                \<longrightarrow> fmlookup m' (sys_prefix env) = Some (new_entry env pypi_version current_time))"
proof -
  let ?e = "new_entry env pypi_version current_time"
  let ?W = "w\<lparr>files := (files w)(p \<mapsto> json_dumps (JObj (fmupd (sys_prefix env) ?e m)))\<rparr>"
  from doc obtain content where content: "files w p = Some content" and readable: "may_read env p"
    by (auto simp: load_document_Inr)
  have upd: "updated_document env p pypi_version current_time w = Inr (JObj (fmupd (sys_prefix env) ?e m))"
    using content doc by (simp add: updated_document_def domI)
  have either: "w' = w \<or> w' = ?W"
    using save_cases [OF path sv] upd by auto
  have written: "r = Inr () \<and> p \<noteq> [] \<and> check_path_owner env (os_path_dirname env p) \<Longrightarrow> w' = ?W"
    using save_returns_cases [OF path, of env pypi_version current_time w w'] sv upd by auto
  have after: "load_document env ?W p = Inr (JObj (fmupd (sys_prefix env) ?e m))"
    using readable reads_back by (simp add: load_document_written)
  show ?thesis
  proof (cases "w' = ?W")
    case True
    with after show ?thesis by auto
  next
    case False
    with either written have "w' = w"
      and "\<not> (r = Inr () \<and> p \<noteq> [] \<and> check_path_owner env (os_path_dirname env p))"
      by auto
    with doc show ?thesis by auto
  qed
qed

theorem save_keeps_other_entries_witness:
  "statefile_path demo_state = Some demo_path
   \<and> load_document demo_env (demo_world_with (json_dumps (JObj demo_other))) demo_path = Inr (JObj demo_other)
   \<and> json_load demo_env (json_dumps (JObj (fmupd (sys_prefix demo_env) (new_entry demo_env ''1.2.1'' demo_now) demo_other)))
       = Some (JObj (fmupd (sys_prefix demo_env) (new_entry demo_env ''1.2.1'' demo_now) demo_other))
   \<and> fst (save demo_env demo_state ''1.2.1'' demo_now (demo_world_with (json_dumps (JObj demo_other)))) = Inr ()
   \<and> (\<exists>m'. load_document demo_env
              (snd (save demo_env demo_state ''1.2.1'' demo_now (demo_world_with (json_dumps (JObj demo_other)))))
              demo_path = Inr (JObj m')
         \<and> fmlookup m' ''/opt/venv'' = fmlookup demo_other ''/opt/venv''
         \<and> fmlookup m' ''/usr'' = Some (new_entry demo_env ''1.2.1'' demo_now))"
proof -
  let ?w = "demo_world_with (json_dumps (JObj demo_other))"
  have h1: "statefile_path demo_state = Some demo_path"
    by (simp add: demo_state_def)
  have h2: "load_document demo_env ?w demo_path = Inr (JObj demo_other)"
    by code_simp
  have h3: "json_load demo_env (json_dumps (JObj (fmupd (sys_prefix demo_env) (new_entry demo_env ''1.2.1'' demo_now) demo_other)))
       = Some (JObj (fmupd (sys_prefix demo_env) (new_entry demo_env ''1.2.1'' demo_now) demo_other))"
    by code_simp
  have h4: "save demo_env demo_state ''1.2.1'' demo_now ?w
      = (fst (save demo_env demo_state ''1.2.1'' demo_now ?w), snd (save demo_env demo_state ''1.2.1'' demo_now ?w))"
    by simp
  have r: "fst (save demo_env demo_state ''1.2.1'' demo_now ?w) = Inr ()"
    by code_simp
  have p: "demo_path \<noteq> []" by (simp add: demo_path_def)
  have own: "check_path_owner demo_env (os_path_dirname demo_env demo_path)" by code_simp
  have pre: "sys_prefix demo_env = ''/usr''" by (simp add: demo_env_def)
  from save_keeps_other_entries [OF h1 h2 h3 h4] r p own pre
  have "\<exists>m'. load_document demo_env (snd (save demo_env demo_state ''1.2.1'' demo_now ?w)) demo_path = Inr (JObj m')
         \<and> fmlookup m' ''/opt/venv'' = fmlookup demo_other ''/opt/venv''
         \<and> fmlookup m' ''/usr'' = Some (new_entry demo_env ''1.2.1'' demo_now)"
    by auto
  with h1 h2 h3 r show ?thesis by blast
qed

text \<open>
  C7. When the ownership predicate rejects the directory of the state file, \<open>save\<close>
  returns normally and the world (every file, the log) is exactly what it was.
\<close>

theorem save_not_owner_unchanged:
  assumes "statefile_path self = Some p"
    and "\<not> check_path_owner env (os_path_dirname env p)"
  shows "save env self pypi_version current_time w = (Inr (), w)"
  using assms by (simp add: save_def)

theorem save_not_owner_unchanged_witness:
  "statefile_path \<lparr>state = JObj fmempty, statefile_path = Some ''/srv/shared/selfcheck.json''\<rparr>
     = Some ''/srv/shared/selfcheck.json''
   \<and> \<not> check_path_owner demo_env (os_path_dirname demo_env ''/srv/shared/selfcheck.json'')
   \<and> save demo_env \<lparr>state = JObj fmempty, statefile_path = Some ''/srv/shared/selfcheck.json''\<rparr>
         ''1.2.1'' demo_now (demo_world_with ''{}'') = (Inr (), demo_world_with ''{}'')"
proof -
  have h1: "statefile_path \<lparr>state = JObj fmempty, statefile_path = Some ''/srv/shared/selfcheck.json''\<rparr>
     = Some ''/srv/shared/selfcheck.json''"
    by simp
  have h2: "\<not> check_path_owner demo_env (os_path_dirname demo_env ''/srv/shared/selfcheck.json'')"
    by code_simp
  show ?thesis
    using h1 h2 save_not_owner_unchanged [OF h1 h2] by simp
qed

text \<open>
  C8. Saving the same \<open>(pypi_version, current_time)\<close> a second time, with nothing written
  in between, ends as the first save did and leaves every file byte for byte as the first
  save left it: the second save reads the document the first one wrote, sets the same
  entry and writes the same text, since \<open>json_dumps\<close> renders a dict by its sorted keys
  with the separators \<open>,\<close> and \<open>:\<close> whatever the order of insertion. The reader is assumed
  to read back the document the first save writes, and the file to be readable.
\<close>

theorem save_twice_same_bytes:
  assumes path: "statefile_path self = Some p"
    and readable: "may_read env p"
    and reads_back: "\<And>doc'. updated_document env p pypi_version current_time w = Inr doc'
                       \<Longrightarrow> json_load env (json_dumps doc') = Some doc'"
    and first: "save env self pypi_version current_time w = (r, w1)"
  shows "save env self pypi_version current_time w1 = (r, w1)"
proof -
  from save_cases [OF path first]
  show ?thesis
  proof
    assume "w1 = w"
    with first show ?thesis by simp
  next
    assume a: "p \<noteq> [] \<and> check_path_owner env (os_path_dirname env p) \<and> r = Inr () \<and> may_write env p \<and>
      (\<exists>doc'. updated_document env p pypi_version current_time w = Inr doc'
          \<and> w1 = w\<lparr>files := (files w)(p \<mapsto> json_dumps doc')\<rparr>)"
    then obtain doc' where doc': "updated_document env p pypi_version current_time w = Inr doc'"
      and w1: "w1 = w\<lparr>files := (files w)(p \<mapsto> json_dumps doc')\<rparr>"
      by blast
    have again: "updated_document env p pypi_version current_time w1 = Inr doc'"
      unfolding w1 using doc' readable reads_back [OF doc'] by (rule updated_document_after_write)
    have gate: "ensure_dir env (os_path_dirname env p) = None" "lock_acquire env p = None"
      using first a doc' path
      by (auto simp: save_def locked_rewrite_def split: option.splits if_splits sum.splits)
    have "save env self pypi_version current_time w1
            = (Inr (), w1\<lparr>files := (files w1)(p \<mapsto> json_dumps doc')\<rparr>)"
      using path a gate again by (simp add: save_def locked_rewrite_def)
    moreover have "w1\<lparr>files := (files w1)(p \<mapsto> json_dumps doc')\<rparr> = w1"
      unfolding w1 by simp
    ultimately show ?thesis using a by simp
  qed
qed

theorem save_twice_same_bytes_witness:
  "statefile_path demo_state = Some demo_path
   \<and> may_read demo_env demo_path
   \<and> updated_document demo_env demo_path ''1.2.1'' demo_now (demo_world_with (json_dumps (JObj demo_other)))
        = Inr (JObj demo_merged)
   \<and> json_load demo_env (json_dumps (JObj demo_merged)) = Some (JObj demo_merged)
   \<and> save demo_env demo_state ''1.2.1'' demo_now (demo_world_with (json_dumps (JObj demo_other)))
        = (Inr (), demo_world_with (json_dumps (JObj demo_merged)))
   \<and> save demo_env demo_state ''1.2.1'' demo_now (demo_world_with (json_dumps (JObj demo_merged)))
        = (Inr (), demo_world_with (json_dumps (JObj demo_merged)))
   \<and> json_dumps (JObj demo_merged) =
        ''{\"/opt/venv\":{\"last_check\":\"2019-01-01T00:00:00Z\",\"pypi_version\":\"1.2.0\"},\"/usr\":{\"last_check\":\"2019-01-08T00:00:00Z\",\"pypi_version\":\"1.2.1\"}}''"
proof -
  let ?w = "demo_world_with (json_dumps (JObj demo_other))"
  let ?w1 = "demo_world_with (json_dumps (JObj demo_merged))"
  have h1: "statefile_path demo_state = Some demo_path"
    by (simp add: demo_state_def)
  have h2: "may_read demo_env demo_path"
    by (simp add: demo_env_def)
  have upd: "updated_document demo_env demo_path ''1.2.1'' demo_now ?w = Inr (JObj demo_merged)"
    by code_simp
  have rb: "json_load demo_env (json_dumps (JObj demo_merged)) = Some (JObj demo_merged)"
    by code_simp
  have h3: "\<And>doc'. updated_document demo_env demo_path ''1.2.1'' demo_now ?w = Inr doc'
              \<Longrightarrow> json_load demo_env (json_dumps doc') = Some doc'"
    using upd rb by simp
  have written: "?w\<lparr>files := (files ?w)(demo_path \<mapsto> json_dumps (JObj demo_merged))\<rparr> = ?w1"
    by (simp add: demo_world_with_def)
  have own: "check_path_owner demo_env (os_path_dirname demo_env demo_path)" by code_simp
  have h4: "save demo_env demo_state ''1.2.1'' demo_now ?w = (Inr (), ?w1)"
    using h1 own upd written
    by (simp add: save_def locked_rewrite_def demo_env_def demo_path_def)
  have bytes: "json_dumps (JObj demo_merged) =
        ''{\"/opt/venv\":{\"last_check\":\"2019-01-01T00:00:00Z\",\"pypi_version\":\"1.2.0\"},\"/usr\":{\"last_check\":\"2019-01-08T00:00:00Z\",\"pypi_version\":\"1.2.1\"}}''"
    by code_simp
  from save_twice_same_bytes [OF h1 h2 h3 h4] h1 h2 upd rb h4 bytes
  show ?thesis by blast
qed

subsection \<open>Auxiliary facts about the check\<close>

lemma save_keeps_counters:
  "save env self pypi_version current_time w = (r, w')
     \<Longrightarrow> index_queries w' = index_queries w \<and> logged w' = logged w"
  by (auto simp: save_def locked_rewrite_def split: option.splits sum.splits if_splits)

lemma compare_and_warn_index_queries:
  "index_queries (snd (compare_and_warn env ins_version pypi_version w)) = index_queries w"
  by (auto simp: compare_and_warn_def split: json.splits sum.splits bool.splits)

lemma compare_and_warn_files:
  "files (snd (compare_and_warn env ins_version pypi_version w)) = files w"
  by (auto simp: compare_and_warn_def split: json.splits sum.splits bool.splits)

lemma refresh_cached:
  "pypi_version \<noteq> JNull \<Longrightarrow>
     refresh env session opts st current_time pypi_version w = (Inr (Some pypi_version), w)"
  by (simp add: refresh_def)

lemma refresh_index_queries:
  "index_queries (snd (refresh env session opts st current_time pypi_version w)) =
     (if pypi_version = JNull then Suc (index_queries w) else index_queries w)"
  by (auto simp: refresh_def Let_def dest!: save_keeps_counters
      split: sum.splits option.splits prod.splits)

lemma cached_pypi_version_entry:
  assumes "state st = JObj m"
    and "fmlookup m ''last_check'' = Some (JStr s)"
    and "strptime env s SELFCHECK_DATE_FMT = Some last_check"
    and "fmlookup m ''pypi_version'' = Some v"
  shows "cached_pypi_version env st current_time =
           Inr (if total_seconds (current_time - last_check) < 7 * 24 * 60 * 60 then v else JNull)"
  using assms
  by (simp add: cached_pypi_version_def datetime_strptime_def fmdomI)

lemma ins_version_check_in_try:
  assumes "get_installed_version env ''ins'' = Inr (Some iv)" and "iv \<noteq> []"
    and "version_parse env iv = Inr ins_version"
  shows "ins_version_check env session opts w =
     (case try_block env session opts ins_version w of
        (Inl e, w1) \<Rightarrow>
          if is_Exception e then (Inr (), w1\<lparr>logged := logged w1 @ [DEBUG error_message]\<rparr>)
          else (Inl e, w1)
      | (Inr u, w1) \<Rightarrow> (Inr (), w1))"
  using assms by (simp add: ins_version_check_def)

lemma ins_version_check_index_queries:
  assumes "get_installed_version env ''ins'' = Inr (Some iv)" and "iv \<noteq> []"
    and "version_parse env iv = Inr ins_version"
  shows "index_queries (snd (ins_version_check env session opts w)) =
           index_queries (snd (resolve_pypi_version env session opts w))"
proof -
  have "index_queries (snd (try_block env session opts ins_version w)) =
          index_queries (snd (resolve_pypi_version env session opts w))"
    using compare_and_warn_index_queries [of env ins_version]
    by (auto simp: try_block_def split: prod.splits sum.splits option.splits)
  then show ?thesis
    unfolding ins_version_check_in_try [OF assms]
    by (auto split: prod.splits sum.splits)
qed

lemma ins_version_check_files:
  assumes "get_installed_version env ''ins'' = Inr (Some iv)" and "iv \<noteq> []"
    and "version_parse env iv = Inr ins_version"
  shows "files (snd (ins_version_check env session opts w)) =
           files (snd (resolve_pypi_version env session opts w))"
proof -
  have "files (snd (try_block env session opts ins_version w)) =
          files (snd (resolve_pypi_version env session opts w))"
    using compare_and_warn_files [of env ins_version]
    by (auto simp: try_block_def split: prod.splits sum.splits option.splits)
  then show ?thesis
    unfolding ins_version_check_in_try [OF assms]
    by (auto split: prod.splits sum.splits)
qed

lemma resolve_with_entry:
  assumes "SelfCheckState_init env (cache_dir opts) w = Inr st"
    and "state st = JObj m"
    and "fmlookup m ''last_check'' = Some (JStr s)"
    and "strptime env s SELFCHECK_DATE_FMT = Some last_check"
    and "fmlookup m ''pypi_version'' = Some v"
  shows "resolve_pypi_version env session opts w =
           refresh env session opts st (utcnow env)
             (if total_seconds (utcnow env - last_check) < 7 * 24 * 60 * 60 then v else JNull) w"
  using assms(1) cached_pypi_version_entry [OF assms(2-5)]
  by (simp add: resolve_pypi_version_def)

lemma total_seconds_less_iff:
  "total_seconds d < 7 * 24 * 3600 \<longleftrightarrow> d < 604800000000"
  by (simp add: total_seconds_def field_simps)

subsection \<open>The freshness decision\<close>

text \<open>
  C3. With a cached entry that holds a \<open>last_check\<close> timestamp in the expected format and a
  \<open>pypi_version\<close> (any value but \<open>None\<close>), a run that reaches the \<open>try\<close> block leaves the
  index alone exactly when the elapsed time \<open>utcnow - last_check\<close> is strictly less than
  \<open>7 * 24 * 3600\<close> seconds; then the cached version is the version the comparison uses.
  Otherwise (seven days exactly, or more) the index is asked once. The elapsed time is
  \<open>total_seconds()\<close>, a quotient of microseconds; the last conjunct reads the test on the
  integers. (A cached \<open>pypi_version\<close> of \<open>null\<close> is Python's \<open>None\<close>, the value line 123
  tests for, and is no version: the entry is then refreshed whatever its age.)
\<close>

theorem remote_query_iff_not_fresh:
  assumes installed: "get_installed_version env ''ins'' = Inr (Some iv)" "iv \<noteq> []"
      "version_parse env iv = Inr ins_version"
    and loaded: "SelfCheckState_init env (cache_dir opts) w = Inr st"
    and entry: "state st = JObj m"
      "fmlookup m ''last_check'' = Some (JStr s)"
      "strptime env s SELFCHECK_DATE_FMT = Some last_check"
      "fmlookup m ''pypi_version'' = Some v" "v \<noteq> JNull"
  shows "(index_queries (snd (ins_version_check env session opts w)) = index_queries w
            \<longleftrightarrow> total_seconds (utcnow env - last_check) < 7 * 24 * 3600)
       \<and> (total_seconds (utcnow env - last_check) < 7 * 24 * 3600
            \<longrightarrow> resolve_pypi_version env session opts w = (Inr (Some v), w))
       \<and> (\<not> total_seconds (utcnow env - last_check) < 7 * 24 * 3600
            \<longrightarrow> index_queries (snd (ins_version_check env session opts w)) = Suc (index_queries w))
       \<and> (total_seconds (utcnow env - last_check) < 7 * 24 * 3600
            \<longleftrightarrow> utcnow env - last_check < 7 * 24 * 3600 * 1000000)"
proof -
  have same: "(7 * 24 * 60 * 60 :: real) = 7 * 24 * 3600" by simp
  note r = resolve_with_entry [OF loaded entry(1-4), of session, unfolded same]
  have "total_seconds (utcnow env - last_check) < 7 * 24 * 3600
          \<longleftrightarrow> utcnow env - last_check < 7 * 24 * 3600 * 1000000"
    using total_seconds_less_iff [of "utcnow env - last_check"] by simp
  then show ?thesis
    unfolding ins_version_check_index_queries [OF installed] r
    using entry(5) by (simp add: refresh_index_queries refresh_cached)
qed

theorem remote_query_iff_not_fresh_witness:
  "get_installed_version demo_env ''ins'' = Inr (Some ''1.2.0'')
   \<and> ''1.2.0'' \<noteq> []
   \<and> version_parse demo_env ''1.2.0'' = Inr (''1.2.0'', [1, 2, 0, 0], ''1.2.0'')
   \<and> SelfCheckState_init demo_env (cache_dir demo_options) (demo_cached ''2019-01-01T00:00:00Z'' ''1.2.1'')
        = Inr \<lparr>state = JObj (demo_fields ''2019-01-01T00:00:00Z'' ''1.2.1''), statefile_path = Some demo_path\<rparr>
   \<and> fmlookup (demo_fields ''2019-01-01T00:00:00Z'' ''1.2.1'') ''last_check'' = Some (JStr ''2019-01-01T00:00:00Z'')
   \<and> strptime demo_env ''2019-01-01T00:00:00Z'' SELFCHECK_DATE_FMT = Some 1546300800000000
   \<and> fmlookup (demo_fields ''2019-01-01T00:00:00Z'' ''1.2.1'') ''pypi_version'' = Some (JStr ''1.2.1'')
   \<and> utcnow demo_env - 1546300800000000 = 7 * 24 * 3600 * 1000000
   \<and> \<not> total_seconds (utcnow demo_env - 1546300800000000) < 7 * 24 * 3600
   \<and> index_queries (snd (ins_version_check demo_env () demo_options (demo_cached ''2019-01-01T00:00:00Z'' ''1.2.1'')))
        = Suc (index_queries (demo_cached ''2019-01-01T00:00:00Z'' ''1.2.1''))"
proof -
  let ?w = "demo_cached ''2019-01-01T00:00:00Z'' ''1.2.1''"
  let ?m = "demo_fields ''2019-01-01T00:00:00Z'' ''1.2.1''"
  let ?st = "\<lparr>state = JObj ?m, statefile_path = Some demo_path\<rparr>"
  have i1: "get_installed_version demo_env ''ins'' = Inr (Some ''1.2.0'')"
    by (simp add: demo_env_def)
  have i2: "''1.2.0'' \<noteq> []" by simp
  have i3: "version_parse demo_env ''1.2.0'' = Inr (''1.2.0'', [1, 2, 0, 0], ''1.2.0'')"
    by code_simp
  have ld: "SelfCheckState_init demo_env (cache_dir demo_options) ?w = Inr ?st"
    by code_simp
  have e1: "state ?st = JObj ?m" by simp
  have e2: "fmlookup ?m ''last_check'' = Some (JStr ''2019-01-01T00:00:00Z'')"
    by (simp add: demo_fields_def)
  have e3: "strptime demo_env ''2019-01-01T00:00:00Z'' SELFCHECK_DATE_FMT = Some 1546300800000000"
    by (simp add: demo_env_def demo_strptime_def)
  have e4: "fmlookup ?m ''pypi_version'' = Some (JStr ''1.2.1'')"
    by (simp add: demo_fields_def)
  have e5: "JStr ''1.2.1'' \<noteq> JNull" by simp
  have age: "utcnow demo_env - 1546300800000000 = 7 * 24 * 3600 * 1000000"
    by (simp add: demo_env_def demo_now_def)
  have stale: "\<not> total_seconds (utcnow demo_env - 1546300800000000) < 7 * 24 * 3600"
    unfolding age by (simp add: total_seconds_def)
  from remote_query_iff_not_fresh [OF i1 i2 i3 ld e1 e2 e3 e4 e5, of "()"] stale
  have "index_queries (snd (ins_version_check demo_env () demo_options ?w)) = Suc (index_queries ?w)"
    by blast
  with i1 i2 i3 ld e2 e3 e4 age stale show ?thesis by blast
qed

text \<open>
  C10. A \<open>last_check\<close> later than the clock gives a negative elapsed time, which is less
  than the window: the cached version counts as fresh, the index is not asked and no file
  is written.
\<close>

theorem future_last_check_is_fresh:
  assumes installed: "get_installed_version env ''ins'' = Inr (Some iv)" "iv \<noteq> []"
      "version_parse env iv = Inr ins_version"
    and loaded: "SelfCheckState_init env (cache_dir opts) w = Inr st"
    and entry: "state st = JObj m"
      "fmlookup m ''last_check'' = Some (JStr s)"
      "strptime env s SELFCHECK_DATE_FMT = Some last_check"
      "fmlookup m ''pypi_version'' = Some v" "v \<noteq> JNull"
    and future: "utcnow env < last_check"
  shows "total_seconds (utcnow env - last_check) < 0
       \<and> total_seconds (utcnow env - last_check) < 7 * 24 * 3600
       \<and> index_queries (snd (ins_version_check env session opts w)) = index_queries w
       \<and> files (snd (ins_version_check env session opts w)) = files w"
proof -
  have neg: "total_seconds (utcnow env - last_check) < 0"
    using future by (simp add: total_seconds_def)
  then have fresh: "total_seconds (utcnow env - last_check) < 7 * 24 * 60 * 60" by simp
  have r: "resolve_pypi_version env session opts w = (Inr (Some v), w)"
    using resolve_with_entry [OF loaded entry(1-4), of session] fresh entry(5)
    by (simp add: refresh_cached)
  show ?thesis
    using neg fresh
    by (simp add: ins_version_check_index_queries [OF installed]
        ins_version_check_files [OF installed] r)
qed

theorem future_last_check_is_fresh_witness:
  "get_installed_version demo_env ''ins'' = Inr (Some ''1.2.0'')
   \<and> ''1.2.0'' \<noteq> []
   \<and> version_parse demo_env ''1.2.0'' = Inr (''1.2.0'', [1, 2, 0, 0], ''1.2.0'')
   \<and> SelfCheckState_init demo_env (cache_dir demo_options) (demo_cached ''2019-02-01T00:00:00Z'' ''1.2.1'')
        = Inr \<lparr>state = JObj (demo_fields ''2019-02-01T00:00:00Z'' ''1.2.1''), statefile_path = Some demo_path\<rparr>
   \<and> fmlookup (demo_fields ''2019-02-01T00:00:00Z'' ''1.2.1'') ''last_check'' = Some (JStr ''2019-02-01T00:00:00Z'')
   \<and> strptime demo_env ''2019-02-01T00:00:00Z'' SELFCHECK_DATE_FMT = Some 1548979200000000
   \<and> fmlookup (demo_fields ''2019-02-01T00:00:00Z'' ''1.2.1'') ''pypi_version'' = Some (JStr ''1.2.1'')
   \<and> utcnow demo_env < 1548979200000000
   \<and> index_queries (snd (ins_version_check demo_env () demo_options (demo_cached ''2019-02-01T00:00:00Z'' ''1.2.1'')))
        = index_queries (demo_cached ''2019-02-01T00:00:00Z'' ''1.2.1'')
   \<and> files (snd (ins_version_check demo_env () demo_options (demo_cached ''2019-02-01T00:00:00Z'' ''1.2.1'')))
        = files (demo_cached ''2019-02-01T00:00:00Z'' ''1.2.1'')"
proof -
  let ?w = "demo_cached ''2019-02-01T00:00:00Z'' ''1.2.1''"
  let ?m = "demo_fields ''2019-02-01T00:00:00Z'' ''1.2.1''"
  let ?st = "\<lparr>state = JObj ?m, statefile_path = Some demo_path\<rparr>"
  have i1: "get_installed_version demo_env ''ins'' = Inr (Some ''1.2.0'')"
    by (simp add: demo_env_def)
  have i2: "''1.2.0'' \<noteq> []" by simp
  have i3: "version_parse demo_env ''1.2.0'' = Inr (''1.2.0'', [1, 2, 0, 0], ''1.2.0'')"
    by code_simp
  have ld: "SelfCheckState_init demo_env (cache_dir demo_options) ?w = Inr ?st"
    by code_simp
  have e1: "state ?st = JObj ?m" by simp
  have e2: "fmlookup ?m ''last_check'' = Some (JStr ''2019-02-01T00:00:00Z'')"
    by (simp add: demo_fields_def)
  have e3: "strptime demo_env ''2019-02-01T00:00:00Z'' SELFCHECK_DATE_FMT = Some 1548979200000000"
    by (simp add: demo_env_def demo_strptime_def)
  have e4: "fmlookup ?m ''pypi_version'' = Some (JStr ''1.2.1'')"
    by (simp add: demo_fields_def)
  have e5: "JStr ''1.2.1'' \<noteq> JNull" by simp
  have fut: "utcnow demo_env < 1548979200000000"
    by (simp add: demo_env_def demo_now_def)
  from future_last_check_is_fresh [OF i1 i2 i3 ld e1 e2 e3 e4 e5 fut, of "()"]
    i1 i2 i3 ld e2 e3 e4 fut
  show ?thesis by blast
qed

subsection \<open>Comparison and notice\<close>

text \<open>
  C4. When the run reaches line 140 with the installed version parsed and a remote version
  resolved (from the cache or from the index) and parsed, exactly one \<open>WARNING\<close> record is
  logged if and only if the installed version is less than the remote one, their base
  versions differ and \<open>was_installed_by_ins\<close> returns \<open>True\<close>; the record is the upgrade
  message. With equal base versions (a difference in the pre- or post-release part
  only) nothing is logged and the function returns.
\<close>

theorem warning_iff_older_and_base_differs_and_self_installed:
  assumes installed: "get_installed_version env ''ins'' = Inr (Some iv)" "iv \<noteq> []"
      "version_parse env iv = Inr ins_version"
    and resolved: "resolve_pypi_version env session opts w = (Inr (Some (JStr pv)), w1)"
    and remote: "version_parse env pv = Inr remote_version"
  shows "((\<exists>msg. logged (snd (ins_version_check env session opts w)) = logged w1 @ [WARNING msg])
            \<longleftrightarrow> version_less env ins_version remote_version
                \<and> base_version env ins_version \<noteq> base_version env remote_version
                \<and> was_installed_by_ins env ''ins'' = Inr True)
       \<and> (version_less env ins_version remote_version
            \<and> base_version env ins_version \<noteq> base_version env remote_version
            \<and> was_installed_by_ins env ''ins'' = Inr True
          \<longrightarrow> ins_version_check env session opts w =
                (Inr (), w1\<lparr>logged := logged w1 @
                   [WARNING (upgrade_message (version_str env ins_version) pv
                      (if WINDOWS env then ''python -m ins'' else ''ins''))]\<rparr>))
       \<and> (\<not> version_less env ins_version remote_version
            \<or> base_version env ins_version = base_version env remote_version
            \<or> was_installed_by_ins env ''ins'' = Inr False
          \<longrightarrow> ins_version_check env session opts w = (Inr (), w1))"
proof -
  have tb: "try_block env session opts ins_version w = compare_and_warn env ins_version (JStr pv) w1"
    using resolved by (simp add: try_block_def)
  show ?thesis
  proof (cases "version_less env ins_version remote_version
                \<and> base_version env ins_version \<noteq> base_version env remote_version")
    case False
    then have "compare_and_warn env ins_version (JStr pv) w1 = (Inr (), w1)"
      using remote by (auto simp: compare_and_warn_def)
    then have "ins_version_check env session opts w = (Inr (), w1)"
      by (simp add: ins_version_check_in_try [OF installed] tb)
    with False show ?thesis by auto
  next
    case True
    show ?thesis
    proof (cases "was_installed_by_ins env ''ins''")
      case (Inl e)
      then have "compare_and_warn env ins_version (JStr pv) w1 = (Inl e, w1)"
        using remote True by (simp add: compare_and_warn_def)
      then have "logged (snd (ins_version_check env session opts w)) = logged w1
           \<or> logged (snd (ins_version_check env session opts w)) = logged w1 @ [DEBUG error_message]"
        by (simp add: ins_version_check_in_try [OF installed] tb)
      with Inl True show ?thesis by auto
    next
      case (Inr b)
      then have "compare_and_warn env ins_version (JStr pv) w1 =
          (Inr (), if b then w1\<lparr>logged := logged w1 @
                   [WARNING (upgrade_message (version_str env ins_version) pv
                      (if WINDOWS env then ''python -m ins'' else ''ins''))]\<rparr> else w1)"
        using remote True by (simp add: compare_and_warn_def)
      then have "ins_version_check env session opts w =
          (Inr (), if b then w1\<lparr>logged := logged w1 @
                   [WARNING (upgrade_message (version_str env ins_version) pv
                      (if WINDOWS env then ''python -m ins'' else ''ins''))]\<rparr> else w1)"
        by (simp add: ins_version_check_in_try [OF installed] tb)
      with Inr True show ?thesis by auto
    qed
  qed
qed


theorem warning_iff_older_and_base_differs_and_self_installed_witness:
  "get_installed_version demo_env ''ins'' = Inr (Some ''1.2.0'')
   \<and> ''1.2.0'' \<noteq> []
   \<and> version_parse demo_env ''1.2.0'' = Inr (''1.2.0'', [1, 2, 0, 0], ''1.2.0'')
   \<and> fst (resolve_pypi_version demo_env () demo_options demo_world) = Inr (Some (JStr ''1.2.1''))
   \<and> version_parse demo_env ''1.2.1'' = Inr (''1.2.1'', [1, 2, 1, 0], ''1.2.1'')
   \<and> version_less demo_env (''1.2.0'', [1, 2, 0, 0], ''1.2.0'') (''1.2.1'', [1, 2, 1, 0], ''1.2.1'')
   \<and> base_version demo_env (''1.2.0'', [1, 2, 0, 0], ''1.2.0'')
        \<noteq> base_version demo_env (''1.2.1'', [1, 2, 1, 0], ''1.2.1'')
   \<and> was_installed_by_ins demo_env ''ins'' = Inr True
   \<and> logged (snd (ins_version_check demo_env () demo_options demo_world)) =
        logged (snd (resolve_pypi_version demo_env () demo_options demo_world))
        @ [WARNING (upgrade_message ''1.2.0'' ''1.2.1'' ''ins'')]
   \<and> fst (resolve_pypi_version (demo_env\<lparr>find_best_candidate :=
              (\<lambda>links urls pre hosts session pkg. Inr (Some (''1.2.0.post1'', [1, 2, 0, 1], ''1.2.0'')))\<rparr>)
            () demo_options demo_world) = Inr (Some (JStr ''1.2.0.post1''))
   \<and> version_less demo_env (''1.2.0'', [1, 2, 0, 0], ''1.2.0'') (''1.2.0.post1'', [1, 2, 0, 1], ''1.2.0'')
   \<and> ins_version_check (demo_env\<lparr>find_best_candidate :=
              (\<lambda>links urls pre hosts session pkg. Inr (Some (''1.2.0.post1'', [1, 2, 0, 1], ''1.2.0'')))\<rparr>)
            () demo_options demo_world =
        (Inr (), snd (resolve_pypi_version (demo_env\<lparr>find_best_candidate :=
              (\<lambda>links urls pre hosts session pkg. Inr (Some (''1.2.0.post1'', [1, 2, 0, 1], ''1.2.0'')))\<rparr>)
            () demo_options demo_world))"
proof -
  let ?v0 = "(''1.2.0'', [1, 2, 0, 0], ''1.2.0'') :: demo_version"
  let ?v1 = "(''1.2.1'', [1, 2, 1, 0], ''1.2.1'') :: demo_version"
  let ?vp = "(''1.2.0.post1'', [1, 2, 0, 1], ''1.2.0'') :: demo_version"
  let ?env' = "demo_env\<lparr>find_best_candidate := (\<lambda>links urls pre hosts session pkg. Inr (Some ?vp))\<rparr>"
  let ?w1 = "snd (resolve_pypi_version demo_env () demo_options demo_world)"
  let ?w1' = "snd (resolve_pypi_version ?env' () demo_options demo_world)"
  have i1: "get_installed_version demo_env ''ins'' = Inr (Some ''1.2.0'')"
    by (simp add: demo_env_def)
  have i2: "''1.2.0'' \<noteq> []" by simp
  have i3: "version_parse demo_env ''1.2.0'' = Inr ?v0" by code_simp
  have f1: "fst (resolve_pypi_version demo_env () demo_options demo_world) = Inr (Some (JStr ''1.2.1''))"
    by code_simp
  then have r1: "resolve_pypi_version demo_env () demo_options demo_world = (Inr (Some (JStr ''1.2.1'')), ?w1)"
    by (metis prod.collapse)
  have p1: "version_parse demo_env ''1.2.1'' = Inr ?v1" by code_simp
  have less1: "version_less demo_env ?v0 ?v1" by code_simp
  have base1: "base_version demo_env ?v0 \<noteq> base_version demo_env ?v1" by code_simp
  have own: "was_installed_by_ins demo_env ''ins'' = Inr True" by code_simp
  have str: "version_str demo_env ?v0 = ''1.2.0''" "\<not> WINDOWS demo_env"
    by (simp_all add: demo_env_def)
  from warning_iff_older_and_base_differs_and_self_installed [OF i1 i2 i3 r1 p1] less1 base1 own str
  have warned: "logged (snd (ins_version_check demo_env () demo_options demo_world)) =
        logged ?w1 @ [WARNING (upgrade_message ''1.2.0'' ''1.2.1'' ''ins'')]"
    by simp
  have j1: "get_installed_version ?env' ''ins'' = Inr (Some ''1.2.0'')"
    by (simp add: demo_env_def)
  have j3: "version_parse ?env' ''1.2.0'' = Inr ?v0" by code_simp
  have f2: "fst (resolve_pypi_version ?env' () demo_options demo_world) = Inr (Some (JStr ''1.2.0.post1''))"
    by code_simp
  then have r2: "resolve_pypi_version ?env' () demo_options demo_world = (Inr (Some (JStr ''1.2.0.post1'')), ?w1')"
    by (metis prod.collapse)
  have p2: "version_parse ?env' ''1.2.0.post1'' = Inr ?vp" by code_simp
  have less2: "version_less demo_env ?v0 ?vp" by code_simp
  have base2: "base_version ?env' ?v0 = base_version ?env' ?vp" by code_simp
  from warning_iff_older_and_base_differs_and_self_installed [OF j1 i2 j3 r2 p2] base2
  have quiet: "ins_version_check ?env' () demo_options demo_world = (Inr (), ?w1')"
    by blast
  from i1 i2 i3 f1 p1 less1 base1 own warned f2 less2 quiet
  show ?thesis by blast
qed

subsection \<open>The catch-all\<close>

text \<open>
  C2, as the code has it. The \<open>try\<close> starts at line 109, after the installed version has
  been read (line 102) and parsed (line 106): an exception of these two steps leaves
  \<open>ins_version_check\<close>. Here \<open>get_installed_version\<close> raises \<open>ValueError\<close> (what
  \<open>pkg_resources\<close> raises for a distribution whose metadata has no version), and the
  caller gets it.
\<close>

theorem installed_version_error_propagates:
  "fst (ins_version_check (demo_env\<lparr>get_installed_version := (\<lambda>pkg. Inl ValueError)\<rparr>)
          () demo_options demo_world) = Inl ValueError"
  by (simp add: ins_version_check_def)

text \<open>
  C2, for the \<open>try\<close> block alone. \<open>ins_version_check\<close> raises \<open>e\<close> exactly when \<open>e\<close> comes from reading the
  installed version, from parsing it, or from inside the \<open>try\<close> block without being an
  \<open>Exception\<close> (\<open>KeyboardInterrupt\<close>, \<open>SystemExit\<close>). Every \<open>Exception\<close> raised inside the
  \<open>try\<close> block (loading the state, parsing the cached timestamp, asking the index, saving,
  parsing the remote version, the provenance check) is logged as one \<open>DEBUG\<close> record and
  the function returns normally.
\<close>

theorem exceptions_swallowed_inside_try_only:
  "(fst (ins_version_check env session opts w) = Inl e \<longleftrightarrow>
      get_installed_version env ''ins'' = Inl e
      \<or> (\<exists>iv. get_installed_version env ''ins'' = Inr (Some iv) \<and> iv \<noteq> [] \<and>
            (version_parse env iv = Inl e
             \<or> (\<exists>v. version_parse env iv = Inr v
                    \<and> fst (try_block env session opts v w) = Inl e \<and> \<not> is_Exception e))))
   \<and> (\<forall>iv v e' w1.
         get_installed_version env ''ins'' = Inr (Some iv) \<and> iv \<noteq> []
         \<and> version_parse env iv = Inr v
         \<and> try_block env session opts v w = (Inl e', w1) \<and> is_Exception e'
         \<longrightarrow> ins_version_check env session opts w =
               (Inr (), w1\<lparr>logged := logged w1 @ [DEBUG error_message]\<rparr>))"
proof -
  have swallowed: "ins_version_check env session opts w =
               (Inr (), w1\<lparr>logged := logged w1 @ [DEBUG error_message]\<rparr>)"
    if "get_installed_version env ''ins'' = Inr (Some iv)" "iv \<noteq> []"
       "version_parse env iv = Inr v"
       "try_block env session opts v w = (Inl e', w1)" "is_Exception e'"
    for iv v e' w1
    using that by (simp add: ins_version_check_in_try)
  have raises: "fst (ins_version_check env session opts w) = Inl e \<longleftrightarrow>
      get_installed_version env ''ins'' = Inl e
      \<or> (\<exists>iv. get_installed_version env ''ins'' = Inr (Some iv) \<and> iv \<noteq> [] \<and>
            (version_parse env iv = Inl e
             \<or> (\<exists>v. version_parse env iv = Inr v
                    \<and> fst (try_block env session opts v w) = Inl e \<and> \<not> is_Exception e)))"
    by (auto simp: ins_version_check_def split: sum.splits option.splits prod.splits if_splits)
  from swallowed raises show ?thesis by blast
qed

theorem exceptions_swallowed_inside_try_only_witness:
  "get_installed_version (demo_env\<lparr>find_best_candidate := (\<lambda>links urls pre hosts session pkg. Inl IOError)\<rparr>) ''ins''
      = Inr (Some ''1.2.0'')
   \<and> ''1.2.0'' \<noteq> []
   \<and> version_parse (demo_env\<lparr>find_best_candidate := (\<lambda>links urls pre hosts session pkg. Inl IOError)\<rparr>) ''1.2.0''
      = Inr (''1.2.0'', [1, 2, 0, 0], ''1.2.0'')
   \<and> fst (try_block (demo_env\<lparr>find_best_candidate := (\<lambda>links urls pre hosts session pkg. Inl IOError)\<rparr>)
            () demo_options (''1.2.0'', [1, 2, 0, 0], ''1.2.0'') demo_world) = Inl IOError
   \<and> is_Exception IOError
   \<and> fst (ins_version_check (demo_env\<lparr>find_best_candidate := (\<lambda>links urls pre hosts session pkg. Inl IOError)\<rparr>)
            () demo_options demo_world) = Inr ()
   \<and> logged (snd (ins_version_check (demo_env\<lparr>find_best_candidate := (\<lambda>links urls pre hosts session pkg. Inl IOError)\<rparr>)
            () demo_options demo_world)) = [DEBUG error_message]"
proof -
  let ?env = "demo_env\<lparr>find_best_candidate := (\<lambda>links urls pre hosts session pkg. Inl IOError)\<rparr>"
  let ?v0 = "(''1.2.0'', [1, 2, 0, 0], ''1.2.0'') :: demo_version"
  let ?w1 = "snd (try_block ?env () demo_options ?v0 demo_world)"
  have i1: "get_installed_version ?env ''ins'' = Inr (Some ''1.2.0'')"
    by (simp add: demo_env_def)
  have i2: "''1.2.0'' \<noteq> []" by simp
  have i3: "version_parse ?env ''1.2.0'' = Inr ?v0" by code_simp
  have f: "fst (try_block ?env () demo_options ?v0 demo_world) = Inl IOError" by code_simp
  then have tb: "try_block ?env () demo_options ?v0 demo_world = (Inl IOError, ?w1)"
    by (metis prod.collapse)
  have ex: "is_Exception IOError" by simp
  have lg: "logged ?w1 = []" by code_simp
  from exceptions_swallowed_inside_try_only [of ?env "()" demo_options demo_world] i1 i2 i3 tb ex
  have "ins_version_check ?env () demo_options demo_world =
          (Inr (), ?w1\<lparr>logged := logged ?w1 @ [DEBUG error_message]\<rparr>)"
    by blast
  with lg have "fst (ins_version_check ?env () demo_options demo_world) = Inr ()"
    and "logged (snd (ins_version_check ?env () demo_options demo_world)) = [DEBUG error_message]"
    by simp_all
  with i1 i2 i3 f ex show ?thesis by blast
qed

subsection \<open>Invalid cached data\<close>

lemma datetime_strptime_error:
  "datetime_strptime env x fmt = Inl e \<Longrightarrow> e = ValueError \<or> e = TypeError"
  by (auto simp: datetime_strptime_def split: json.splits option.splits)

text \<open>
  C9, as the code has it. A cached entry whose \<open>last_check\<close> is not in the expected format
  is not treated as absent. With no entry for the environment (the document \<open>{}\<close>) the
  check asks the index and warns; with the entry
  \<open>{"last_check": "last tuesday", "pypi_version": "1.2.1"}\<close> it asks nothing and logs the
  error: \<open>strptime\<close> raises inside the \<open>try\<close> block and the handler ends the check.
\<close>

theorem unparseable_cache_is_not_treated_as_absent:
  "index_queries (snd (ins_version_check demo_env () demo_options (demo_cached ''last tuesday'' ''1.2.1''))) = 0
   \<and> logged (snd (ins_version_check demo_env () demo_options (demo_cached ''last tuesday'' ''1.2.1'')))
        = [DEBUG error_message]
   \<and> index_queries (snd (ins_version_check demo_env () demo_options (demo_world_with ''{}''))) = 1
   \<and> logged (snd (ins_version_check demo_env () demo_options (demo_world_with ''{}'')))
        = [WARNING (upgrade_message ''1.2.0'' ''1.2.1'' ''ins'')]"
  by code_simp

text \<open>
  C9, what the code does instead. For a cached entry that holds both keys:
  a \<open>last_check\<close> that \<open>strptime\<close> rejects (a string in another format: \<open>ValueError\<close>; a
  value that is not a string: \<open>TypeError\<close>) ends the check at once: no index query, no
  save, no warning, one \<open>DEBUG\<close> record, a normal return. When \<open>last_check\<close> is accepted
  and within the window, the cached \<open>pypi_version\<close> (any value but \<open>null\<close>, well formed or
  not) is the value handed to the version parser: the index is not asked and no file is
  written; and when that value is not a string, \<open>packaging_version.parse\<close> raises
  \<open>TypeError\<close> and the check ends in the same way. In no case is the cached entry treated
  as absent.
\<close>

theorem invalid_cached_entry_abandons_check:
  assumes installed: "get_installed_version env ''ins'' = Inr (Some iv)" "iv \<noteq> []"
      "version_parse env iv = Inr ins_version"
    and loaded: "SelfCheckState_init env (cache_dir opts) w = Inr st"
    and entry: "state st = JObj m" "fmlookup m ''last_check'' = Some lc"
      "fmlookup m ''pypi_version'' = Some v"
  shows "(\<forall>e. datetime_strptime env lc SELFCHECK_DATE_FMT = Inl e
            \<longrightarrow> ins_version_check env session opts w =
                  (Inr (), w\<lparr>logged := logged w @ [DEBUG error_message]\<rparr>))
       \<and> (\<forall>t. datetime_strptime env lc SELFCHECK_DATE_FMT = Inr t
                \<and> total_seconds (utcnow env - t) < 7 * 24 * 3600
                \<and> v \<noteq> JNull
            \<longrightarrow> resolve_pypi_version env session opts w = (Inr (Some v), w)
                \<and> index_queries (snd (ins_version_check env session opts w)) = index_queries w
                \<and> files (snd (ins_version_check env session opts w)) = files w)
       \<and> (\<forall>t. datetime_strptime env lc SELFCHECK_DATE_FMT = Inr t
                \<and> total_seconds (utcnow env - t) < 7 * 24 * 3600
                \<and> v \<noteq> JNull \<and> (\<forall>pv. v \<noteq> JStr pv)
            \<longrightarrow> ins_version_check env session opts w =
                  (Inr (), w\<lparr>logged := logged w @ [DEBUG error_message]\<rparr>))"
proof -
  have rejected: "ins_version_check env session opts w =
                  (Inr (), w\<lparr>logged := logged w @ [DEBUG error_message]\<rparr>)"
    if bad: "datetime_strptime env lc SELFCHECK_DATE_FMT = Inl e" for e
  proof -
    have exn: "is_Exception e"
      using datetime_strptime_error [OF bad] by auto
    have "cached_pypi_version env st (utcnow env) = Inl e"
      using entry bad by (simp add: cached_pypi_version_def fmdomI)
    then have "try_block env session opts ins_version w = (Inl e, w)"
      using loaded by (simp add: try_block_def resolve_pypi_version_def)
    then show ?thesis
      using exn by (simp add: ins_version_check_in_try [OF installed])
  qed
  have resolved: "resolve_pypi_version env session opts w = (Inr (Some v), w)"
    if "datetime_strptime env lc SELFCHECK_DATE_FMT = Inr t"
      and "total_seconds (utcnow env - t) < 7 * 24 * 3600" and "v \<noteq> JNull" for t
  proof -
    have "cached_pypi_version env st (utcnow env) = Inr v"
      using entry that by (simp add: cached_pypi_version_def fmdomI)
    then show ?thesis
      using loaded that by (simp add: resolve_pypi_version_def refresh_cached)
  qed
  have used: "resolve_pypi_version env session opts w = (Inr (Some v), w)
                \<and> index_queries (snd (ins_version_check env session opts w)) = index_queries w
                \<and> files (snd (ins_version_check env session opts w)) = files w"
    if "datetime_strptime env lc SELFCHECK_DATE_FMT = Inr t"
      and "total_seconds (utcnow env - t) < 7 * 24 * 3600" and "v \<noteq> JNull" for t
    using resolved [OF that]
    by (simp add: ins_version_check_index_queries [OF installed]
        ins_version_check_files [OF installed])
  have not_a_string: "ins_version_check env session opts w =
                  (Inr (), w\<lparr>logged := logged w @ [DEBUG error_message]\<rparr>)"
    if "datetime_strptime env lc SELFCHECK_DATE_FMT = Inr t"
      and "total_seconds (utcnow env - t) < 7 * 24 * 3600" and "v \<noteq> JNull"
      and "\<forall>pv. v \<noteq> JStr pv" for t
  proof -
    have "compare_and_warn env ins_version v w = (Inl TypeError, w)"
      using that(4) by (cases v) (simp_all add: compare_and_warn_def)
    with resolved [OF that(1-3)]
    have "try_block env session opts ins_version w = (Inl TypeError, w)"
      by (simp add: try_block_def)
    then show ?thesis
      by (simp add: ins_version_check_in_try [OF installed])
  qed
  from rejected used not_a_string show ?thesis by blast
qed

theorem invalid_cached_entry_abandons_check_witness:
  "get_installed_version demo_env ''ins'' = Inr (Some ''1.2.0'')
   \<and> ''1.2.0'' \<noteq> []
   \<and> version_parse demo_env ''1.2.0'' = Inr (''1.2.0'', [1, 2, 0, 0], ''1.2.0'')
   \<and> SelfCheckState_init demo_env (cache_dir demo_options) (demo_cached ''last tuesday'' ''1.2.1'')
        = Inr \<lparr>state = JObj (demo_fields ''last tuesday'' ''1.2.1''), statefile_path = Some demo_path\<rparr>
   \<and> fmlookup (demo_fields ''last tuesday'' ''1.2.1'') ''last_check'' = Some (JStr ''last tuesday'')
   \<and> fmlookup (demo_fields ''last tuesday'' ''1.2.1'') ''pypi_version'' = Some (JStr ''1.2.1'')
   \<and> datetime_strptime demo_env (JStr ''last tuesday'') SELFCHECK_DATE_FMT = Inl ValueError
   \<and> ins_version_check demo_env () demo_options (demo_cached ''last tuesday'' ''1.2.1'') =
        (Inr (), (demo_cached ''last tuesday'' ''1.2.1'')
           \<lparr>logged := logged (demo_cached ''last tuesday'' ''1.2.1'') @ [DEBUG error_message]\<rparr>)
   \<and> json_dumps (demo_recent_document (JNum 5)) =
        ''{\"/usr\":{\"last_check\":\"2019-01-07T12:00:00Z\",\"pypi_version\":5}}''
   \<and> SelfCheckState_init (demo_env_reading (demo_recent_document (JNum 5))) (cache_dir demo_options)
          (demo_world_with (json_dumps (demo_recent_document (JNum 5))))
        = Inr \<lparr>state = JObj (demo_recent_fields (JNum 5)), statefile_path = Some demo_path\<rparr>
   \<and> fmlookup (demo_recent_fields (JNum 5)) ''last_check'' = Some (JStr ''2019-01-07T12:00:00Z'')
   \<and> fmlookup (demo_recent_fields (JNum 5)) ''pypi_version'' = Some (JNum 5)
   \<and> datetime_strptime (demo_env_reading (demo_recent_document (JNum 5)))
          (JStr ''2019-01-07T12:00:00Z'') SELFCHECK_DATE_FMT = Inr 1546862400000000
   \<and> total_seconds (utcnow (demo_env_reading (demo_recent_document (JNum 5))) - 1546862400000000)
        < 7 * 24 * 3600
   \<and> index_queries (snd (ins_version_check (demo_env_reading (demo_recent_document (JNum 5))) ()
          demo_options (demo_world_with (json_dumps (demo_recent_document (JNum 5))))))
        = index_queries (demo_world_with (json_dumps (demo_recent_document (JNum 5))))
   \<and> ins_version_check (demo_env_reading (demo_recent_document (JNum 5))) () demo_options
          (demo_world_with (json_dumps (demo_recent_document (JNum 5)))) =
        (Inr (), (demo_world_with (json_dumps (demo_recent_document (JNum 5))))
           \<lparr>logged := logged (demo_world_with (json_dumps (demo_recent_document (JNum 5))))
                        @ [DEBUG error_message]\<rparr>)
   \<and> SelfCheckState_init (demo_env_reading (demo_recent_document (JStr ''1.2.x''))) (cache_dir demo_options)
          (demo_world_with (json_dumps (demo_recent_document (JStr ''1.2.x''))))
        = Inr \<lparr>state = JObj (demo_recent_fields (JStr ''1.2.x'')), statefile_path = Some demo_path\<rparr>
   \<and> resolve_pypi_version (demo_env_reading (demo_recent_document (JStr ''1.2.x''))) () demo_options
          (demo_world_with (json_dumps (demo_recent_document (JStr ''1.2.x''))))
        = (Inr (Some (JStr ''1.2.x'')), demo_world_with (json_dumps (demo_recent_document (JStr ''1.2.x''))))
   \<and> index_queries (snd (ins_version_check (demo_env_reading (demo_recent_document (JStr ''1.2.x''))) ()
          demo_options (demo_world_with (json_dumps (demo_recent_document (JStr ''1.2.x''))))))
        = index_queries (demo_world_with (json_dumps (demo_recent_document (JStr ''1.2.x''))))"
proof -
  let ?w = "demo_cached ''last tuesday'' ''1.2.1''"
  let ?m = "demo_fields ''last tuesday'' ''1.2.1''"
  let ?st = "\<lparr>state = JObj ?m, statefile_path = Some demo_path\<rparr>"
  have i1: "get_installed_version demo_env ''ins'' = Inr (Some ''1.2.0'')"
    by (simp add: demo_env_def)
  have i2: "''1.2.0'' \<noteq> []" by simp
  have i3: "version_parse demo_env ''1.2.0'' = Inr (''1.2.0'', [1, 2, 0, 0], ''1.2.0'')"
    by code_simp
  have ld: "SelfCheckState_init demo_env (cache_dir demo_options) ?w = Inr ?st"
    by code_simp
  have e1: "state ?st = JObj ?m" by simp
  have e2: "fmlookup ?m ''last_check'' = Some (JStr ''last tuesday'')"
    by (simp add: demo_fields_def)
  have e3: "fmlookup ?m ''pypi_version'' = Some (JStr ''1.2.1'')"
    by (simp add: demo_fields_def)
  have bad: "datetime_strptime demo_env (JStr ''last tuesday'') SELFCHECK_DATE_FMT = Inl ValueError"
    by code_simp
  from invalid_cached_entry_abandons_check [OF i1 i2 i3 ld e1 e2 e3, of "()"] bad
  have first: "ins_version_check demo_env () demo_options ?w =
        (Inr (), ?w\<lparr>logged := logged ?w @ [DEBUG error_message]\<rparr>)"
    by blast
  let ?envn = "demo_env_reading (demo_recent_document (JNum 5))"
  let ?wn = "demo_world_with (json_dumps (demo_recent_document (JNum 5)))"
  let ?mn = "demo_recent_fields (JNum 5)"
  let ?stn = "\<lparr>state = JObj ?mn, statefile_path = Some demo_path\<rparr>"
  have bytes: "json_dumps (demo_recent_document (JNum 5)) =
        ''{\"/usr\":{\"last_check\":\"2019-01-07T12:00:00Z\",\"pypi_version\":5}}''"
    by code_simp
  have n1: "get_installed_version ?envn ''ins'' = Inr (Some ''1.2.0'')"
    by (simp add: demo_env_reading_def demo_env_def)
  have n3: "version_parse ?envn ''1.2.0'' = Inr (''1.2.0'', [1, 2, 0, 0], ''1.2.0'')"
    by code_simp
  have nld: "SelfCheckState_init ?envn (cache_dir demo_options) ?wn = Inr ?stn"
    by code_simp
  have ne1: "state ?stn = JObj ?mn" by simp
  have ne2: "fmlookup ?mn ''last_check'' = Some (JStr ''2019-01-07T12:00:00Z'')"
    by (simp add: demo_recent_fields_def)
  have ne3: "fmlookup ?mn ''pypi_version'' = Some (JNum 5)"
    by (simp add: demo_recent_fields_def)
  have nt: "datetime_strptime ?envn (JStr ''2019-01-07T12:00:00Z'') SELFCHECK_DATE_FMT
              = Inr 1546862400000000"
    by code_simp
  have nfresh: "total_seconds (utcnow ?envn - 1546862400000000) < 7 * 24 * 3600"
    by (simp add: demo_env_reading_def demo_env_def demo_now_def total_seconds_def)
  have nv: "JNum 5 \<noteq> JNull \<and> (\<forall>pv. JNum 5 \<noteq> JStr pv)" by simp
  from invalid_cached_entry_abandons_check [OF n1 i2 n3 nld ne1 ne2 ne3, of "()"] nt nfresh nv
  have second: "index_queries (snd (ins_version_check ?envn () demo_options ?wn)) = index_queries ?wn"
    and third: "ins_version_check ?envn () demo_options ?wn =
        (Inr (), ?wn\<lparr>logged := logged ?wn @ [DEBUG error_message]\<rparr>)"
    by blast+
  let ?envs = "demo_env_reading (demo_recent_document (JStr ''1.2.x''))"
  let ?ws = "demo_world_with (json_dumps (demo_recent_document (JStr ''1.2.x'')))"
  let ?ms = "demo_recent_fields (JStr ''1.2.x'')"
  let ?sts = "\<lparr>state = JObj ?ms, statefile_path = Some demo_path\<rparr>"
  have s1: "get_installed_version ?envs ''ins'' = Inr (Some ''1.2.0'')"
    by (simp add: demo_env_reading_def demo_env_def)
  have s3: "version_parse ?envs ''1.2.0'' = Inr (''1.2.0'', [1, 2, 0, 0], ''1.2.0'')"
    by code_simp
  have sld: "SelfCheckState_init ?envs (cache_dir demo_options) ?ws = Inr ?sts"
    by code_simp
  have se1: "state ?sts = JObj ?ms" by simp
  have se2: "fmlookup ?ms ''last_check'' = Some (JStr ''2019-01-07T12:00:00Z'')"
    by (simp add: demo_recent_fields_def)
  have se3: "fmlookup ?ms ''pypi_version'' = Some (JStr ''1.2.x'')"
    by (simp add: demo_recent_fields_def)
  have st: "datetime_strptime ?envs (JStr ''2019-01-07T12:00:00Z'') SELFCHECK_DATE_FMT
              = Inr 1546862400000000"
    by code_simp
  have sfresh: "total_seconds (utcnow ?envs - 1546862400000000) < 7 * 24 * 3600"
    by (simp add: demo_env_reading_def demo_env_def demo_now_def total_seconds_def)
  have sv: "JStr ''1.2.x'' \<noteq> JNull" by simp
  from invalid_cached_entry_abandons_check [OF s1 i2 s3 sld se1 se2 se3, of "()"] st sfresh sv
  have fourth: "resolve_pypi_version ?envs () demo_options ?ws = (Inr (Some (JStr ''1.2.x'')), ?ws)"
    and fifth: "index_queries (snd (ins_version_check ?envs () demo_options ?ws)) = index_queries ?ws"
    by blast+
  from i1 i2 i3 ld e2 e3 bad first bytes nld ne2 ne3 nt nfresh second third sld fourth fifth
  show ?thesis by blast
qed

subsection \<open>Defects of the state store\<close>

lemma load_document_error:
  "load_document env w p = Inl e \<Longrightarrow> e = IOError \<or> e = ValueError"
  by (auto simp: load_document_def read_file_def split: option.splits if_splits sum.splits)

lemma SelfCheckState_init_raises_iff:
  "SelfCheckState_init env cdir w = Inl e \<longleftrightarrow>
     e = TypeError \<and>
     (\<exists>d doc. cdir = Some d \<and> d \<noteq> []
        \<and> load_document env w (os_path_join env d ''selfcheck.json'') = Inr doc
        \<and> (\<forall>m. doc \<noteq> JObj m))"
proof (cases cdir)
  case None
  then show ?thesis by (simp add: SelfCheckState_init_def)
next
  case (Some d)
  show ?thesis
  proof (cases "d = []")
    case True
    with Some show ?thesis by (simp add: SelfCheckState_init_def)
  next
    case False
    show ?thesis
    proof (cases "load_document env w (os_path_join env d ''selfcheck.json'')")
      case (Inl e')
      with load_document_error have "e' = IOError \<or> e' = ValueError" by blast
      with Some False Inl show ?thesis
        by (auto simp: SelfCheckState_init_def Let_def)
    next
      case (Inr doc)
      show ?thesis
      proof (cases "\<exists>m. doc = JObj m")
        case True
        then obtain m where "doc = JObj m" ..
        with Some False Inr show ?thesis
          by (auto simp: SelfCheckState_init_def Let_def split: option.splits)
      next
        case notobj: False
        then have "py_getitem doc (sys_prefix env) = Inl TypeError"
          by (cases doc) auto
        with Some False Inr notobj show ?thesis
          by (auto simp: SelfCheckState_init_def Let_def)
      qed
    qed
  qed
qed

lemma SelfCheckState_init_tolerates:
  assumes "cdir = Some d" and "d \<noteq> []"
    and "load_document env w (os_path_join env d ''selfcheck.json'') = Inl e
         \<or> (\<exists>m. load_document env w (os_path_join env d ''selfcheck.json'') = Inr (JObj m)
                \<and> fmlookup m (sys_prefix env) = None)"
  shows "SelfCheckState_init env cdir w =
           Inr \<lparr>state = JObj fmempty, statefile_path = Some (os_path_join env d ''selfcheck.json'')\<rparr>"
  using assms by (auto simp: SelfCheckState_init_def Let_def dest: load_document_error)

text \<open>
  C5 fails on the code for a state file that is valid JSON but not an object. The handler
  of \<open>__init__\<close> names \<open>IOError\<close>, \<open>ValueError\<close> and \<open>KeyError\<close>; subscripting a list, a
  string, a number or \<open>null\<close> with \<open>sys.prefix\<close> raises \<open>TypeError\<close>, which leaves the
  constructor. Here the file holds \<open>[]\<close>.
\<close>

theorem init_raises_on_json_that_is_not_an_object:
  "SelfCheckState_init demo_env (Some ''/cache'') (demo_world_with ''[]'') = Inl TypeError
   \<and> json_load demo_env ''[]'' = Some (JArr [])"
  by code_simp

lemma save_raises_on_unparseable_file:
  assumes "statefile_path self = Some p" and "p \<noteq> []"
    and "check_path_owner env (os_path_dirname env p)"
    and "ensure_dir env (os_path_dirname env p) = None"
    and "lock_acquire env p = None"
    and "files w p = Some content" and "may_read env p"
    and "json_load env content = None"
  shows "save env self pypi_version current_time w = (Inl ValueError, w)"
  using assms
  by (simp add: save_def locked_rewrite_def updated_document_def load_document_def read_file_def domI)

text \<open>
  C6 fails on the code: the re-read under the lock (line 65) is not guarded, so a state
  file that does not parse makes \<open>save\<close> raise \<open>ValueError\<close> and the file stays as it
  was. In \<open>ins_version_check\<close> the handler then ends the check before the comparison: no
  warning although 1.2.1 is on the index, and the corrupt file is still there for the next
  run. Here the file holds \<open>{\<close>.
\<close>

theorem save_raises_on_corrupt_state_file:
  "fst (save demo_env demo_state ''1.2.1'' demo_now (demo_world_with ''{'')) = Inl ValueError
   \<and> files (snd (save demo_env demo_state ''1.2.1'' demo_now (demo_world_with ''{''))) demo_path = Some ''{''
   \<and> json_load demo_env ''{'' = None
   \<and> fst (ins_version_check demo_env () demo_options (demo_world_with ''{'')) = Inr ()
   \<and> logged (snd (ins_version_check demo_env () demo_options (demo_world_with ''{''))) = [DEBUG error_message]
   \<and> files (snd (ins_version_check demo_env () demo_options (demo_world_with ''{''))) demo_path = Some ''{''"
  by code_simp

end
